theory Spec2Isabelle
  imports Complex_Main "HOL-Library.List_Lexorder" "HOL-Library.Word"
begin

section \<open>The listing store of database.py\<close>

text \<open>
  The class \<open>RealEstateDatabase\<close> of \<open>database.py\<close> talks to an SQLite store of five
  tables.  The store is embedded as a record of row lists (each list in the scan order of
  its table), every method as a function that takes the store and returns its result,
  together with the new store when the method writes.  A Python \<open>str\<close> is the list of its
  code points.  Exceptions that leave a method are values of the type \<open>error\<close>:
  the \<open>TypeError\<close> of \<open>dict(None)\<close> and \<open>round(None, 2)\<close>, and the \<open>OverflowError\<close> that
  \<open>sqlite3\<close> raises when it binds a Python \<open>int\<close> outside the 64-bit range of an SQLite
  integer.  Neither is an \<open>sqlite3.Error\<close>, so no handler of the class catches them.

  The file \<open>schema.sql\<close> that declares the tables belongs to the repository but not to the
  sources at hand, so the row types below follow the column lists of \<open>database.py\<close> and
  the data model of the specification.  The id of a listing, which callers hand to the
  methods as a Python \<open>int\<close>, is the signed 64-bit integer that SQLite stores: a word, read
  with \<open>sint\<close>.  The other identifiers, the counters, the room numbers and the 0/1 flags
  are integers (those that a row holds are within 64 bits, which the model does not
  record), price, area and the coordinates are exact rationals (the store keeps them as
  floating-point numbers), the creation timestamp is an integer clock value.  The fields
  of a row carry the alias that the SQL text of the source gives its table (\<open>p\<close>, \<open>pf\<close>,
  \<open>f\<close>, \<open>pt\<close>, \<open>d\<close>).  NULL is not a value of a column, and the store is always reachable:
  no \<open>sqlite3.Error\<close> arises from a connection failure.
\<close>

type_synonym str = "nat list"

datatype error = TypeError | OverflowError

text \<open>The range of an SQLite integer, outside of which \<open>sqlite3\<close> refuses to bind an \<open>int\<close>.\<close>

definition int64 :: "int \<Rightarrow> bool" where
  "int64 n = (- (2 ^ 63) \<le> n \<and> n < 2 ^ 63)"

text \<open>
  A number that a caller passes as a price or an area: a Python \<open>int\<close> or a finite
  \<open>float\<close> (an exact rational here).  Only an \<open>int\<close> can fail to bind.
\<close>

datatype number = PyInt int | PyFloat rat

definition number_value :: "number \<Rightarrow> rat" where
  "number_value v = (case v of PyInt n \<Rightarrow> of_int n | PyFloat x \<Rightarrow> x)"

definition can_bind :: "number \<Rightarrow> bool" where
  "can_bind v = (case v of PyInt n \<Rightarrow> int64 n | PyFloat x \<Rightarrow> True)"

record property =
  p_property_id :: "64 word"
  p_title :: str
  p_description :: str
  p_type_id :: int
  p_district_id :: int
  p_address :: str
  p_price :: rat
  p_area :: rat
  p_rooms :: int
  p_floor :: int
  p_total_floors :: int
  p_year_built :: int
  p_renovation_year :: int
  p_has_balcony :: int
  p_has_elevator :: int
  p_has_parking :: int
  p_image_url :: str
  p_contact_phone :: str
  p_contact_name :: str
  p_latitude :: rat
  p_longitude :: rat
  p_is_available :: int
  p_views_count :: int
  p_date_added :: int

record pf_row =
  pf_property_id :: "64 word"
  pf_feature_id :: int

record feature_row =
  f_feature_id :: int
  f_name :: str

record type_row =
  pt_type_id :: int
  pt_name :: str

record district_row =
  d_district_id :: int
  d_name :: str
  d_popularity :: int

text \<open>The value that Python reads as \<open>row['property_id']\<close>.\<close>

definition row_id :: "'a property_scheme \<Rightarrow> int" where
  "row_id p = sint (p_property_id p)"

record db =
  Properties :: "property list"
  PropertyFeatures :: "pf_row list"
  Features :: "feature_row list"
  PropertyTypes :: "type_row list"
  Districts :: "district_row list"

text \<open>
  The dictionary \<open>filters\<close> of \<open>search_properties\<close>: a key that is absent is \<open>None\<close>.
\<close>

record filters =
  features :: "int list option"
  min_price :: "number option"
  max_price :: "number option"
  min_area :: "number option"
  max_area :: "number option"
  district_id :: "int option"
  type_id :: "int option"
  rooms :: "int option"
  has_balcony :: "bool option"
  has_elevator :: "bool option"
  has_parking :: "bool option"

definition no_filters :: filters where
  "no_filters = \<lparr>features = None, min_price = None, max_price = None, min_area = None,
     max_area = None, district_id = None, type_id = None, rooms = None,
     has_balcony = None, has_elevator = None, has_parking = None\<rparr>"

text \<open>
  What \<open>search_properties\<close> and \<open>get_property_by_id\<close> return for a listing: the row with
  the three keys \<open>features\<close>, \<open>property_type\<close> and \<open>district\<close> added.
\<close>

record property_dict = property +
  pd_features :: "feature_row list"
  pd_property_type :: type_row
  pd_district :: district_row

subsection \<open>search_properties\<close>

text \<open>The bound parameter \<open>1 if filters['has_balcony'] else 0\<close>.\<close>

definition flag :: "bool \<Rightarrow> int" where
  "flag b = (if b then 1 else 0)"

text \<open>
  The list \<open>conditions\<close> without the feature group: \<open>p.is_available = 1\<close> and one
  conjunct for each key that is present.
\<close>

definition conditions :: "filters \<Rightarrow> property \<Rightarrow> bool" where
  "conditions flt p =
     (p_is_available p = 1
      \<and> (case min_price flt of None \<Rightarrow> True | Some v \<Rightarrow> number_value v \<le> p_price p)
      \<and> (case max_price flt of None \<Rightarrow> True | Some v \<Rightarrow> p_price p \<le> number_value v)
      \<and> (case min_area flt of None \<Rightarrow> True | Some v \<Rightarrow> number_value v \<le> p_area p)
      \<and> (case max_area flt of None \<Rightarrow> True | Some v \<Rightarrow> p_area p \<le> number_value v)
      \<and> (case district_id flt of None \<Rightarrow> True | Some v \<Rightarrow> p_district_id p = v)
      \<and> (case type_id flt of None \<Rightarrow> True | Some v \<Rightarrow> p_type_id p = v)
      \<and> (case rooms flt of None \<Rightarrow> True | Some v \<Rightarrow> p_rooms p = v)
      \<and> (case has_balcony flt of None \<Rightarrow> True | Some b \<Rightarrow> p_has_balcony p = flag b)
      \<and> (case has_elevator flt of None \<Rightarrow> True | Some b \<Rightarrow> p_has_elevator p = flag b)
      \<and> (case has_parking flt of None \<Rightarrow> True | Some b \<Rightarrow> p_has_parking p = flag b))"

text \<open>The group \<open>(pf.feature_id = ? OR pf.feature_id = ? ...)\<close>.\<close>

definition feature_conditions :: "int list \<Rightarrow> pf_row \<Rightarrow> bool" where
  "feature_conditions fs pf = list_ex (\<lambda>feature_id. pf_feature_id pf = feature_id) fs"

text \<open>
  \<open>FROM Properties p [JOIN PropertyFeatures pf ON ...] WHERE ...\<close>, projected on \<open>p.*\<close>.
  The join is there only when the key \<open>features\<close> is present with a list that is not
  empty; it yields a copy of the row for each of its associations that passes the group.
\<close>

definition select_rows :: "db \<Rightarrow> filters \<Rightarrow> property list" where
  "select_rows s flt =
     (case features flt of
        Some (f # fs) \<Rightarrow>
          [p. p \<leftarrow> Properties s, pf \<leftarrow> PropertyFeatures s,
              p_property_id p = pf_property_id pf,
              conditions flt p \<and> feature_conditions (f # fs) pf]
      | _ \<Rightarrow> [p \<leftarrow> Properties s. conditions flt p])"

text \<open>
  \<open>ORDER BY p.date_added DESC\<close>.  SQL leaves the order of rows with equal keys open, and
  what SQLite returns for them depends on the plan it chooses for the query; here they
  keep the order in which \<open>select_rows\<close> yields them.
\<close>

definition order_by_date_added_desc :: "property list \<Rightarrow> property list" where
  "order_by_date_added_desc rows = sort_key (\<lambda>p. - p_date_added p) rows"

text \<open>
  \<open>LIMIT ? OFFSET ?\<close> as SQLite evaluates it: a negative limit is no limit, a negative
  offset is no offset.
\<close>

definition limit_offset :: "int \<Rightarrow> int \<Rightarrow> 'a list \<Rightarrow> 'a list" where
  "limit_offset limit offset rows =
     (if limit < 0 then drop (nat offset) rows else take (nat limit) (drop (nat offset) rows))"

definition search_rows :: "db \<Rightarrow> filters \<Rightarrow> int \<Rightarrow> int \<Rightarrow> property list" where
  "search_rows s flt limit offset =
     limit_offset limit offset (order_by_date_added_desc (remdups (select_rows s flt)))"

text \<open>\<open>cursor.fetchone()\<close>: the first row of the result, \<open>None\<close> when there is none.\<close>

definition fetchone :: "'a list \<Rightarrow> 'a option" where
  "fetchone rows = (case rows of [] \<Rightarrow> None | r # _ \<Rightarrow> Some r)"

text \<open>The features of a listing: \<open>Features f JOIN PropertyFeatures pf ... WHERE pf.property_id = ?\<close>.\<close>

definition features_query :: "db \<Rightarrow> 64 word \<Rightarrow> feature_row list" where
  "features_query s pid =
     [f. f \<leftarrow> Features s, pf \<leftarrow> PropertyFeatures s,
         f_feature_id f = pf_feature_id pf, pf_property_id pf = pid]"

text \<open>
  The three lookups that both \<open>search_properties\<close> and \<open>get_property_by_id\<close> make for a
  row.  \<open>dict(self.cursor.fetchone())\<close> raises \<open>TypeError\<close> when the type or the district
  of the row is not in its table; neither method catches it.
\<close>

definition enrich :: "db \<Rightarrow> property \<Rightarrow> error + property_dict" where
  "enrich s row =
     (case fetchone [pt \<leftarrow> PropertyTypes s. pt_type_id pt = p_type_id row] of
        None \<Rightarrow> Inl TypeError
      | Some pt \<Rightarrow>
          (case fetchone [d \<leftarrow> Districts s. d_district_id d = p_district_id row] of
             None \<Rightarrow> Inl TypeError
           | Some d \<Rightarrow>
               Inr (property.extend row
                      (property_dict.fields (features_query s (p_property_id row)) pt d))))"

text \<open>The loop \<open>for row in rows\<close>; the first exception ends it.\<close>

fun enrich_all :: "db \<Rightarrow> property list \<Rightarrow> error + property_dict list" where
  "enrich_all s [] = Inr []"
| "enrich_all s (row # rows) =
     (case enrich s row of
        Inl e \<Rightarrow> Inl e
      | Inr property_dict \<Rightarrow>
          (case enrich_all s rows of
             Inl e \<Rightarrow> Inl e
           | Inr properties \<Rightarrow> Inr (property_dict # properties)))"

text \<open>One entry of \<open>params\<close> for a key that is present.\<close>

definition param :: "'a option \<Rightarrow> 'a list" where
  "param entry = (case entry of None \<Rightarrow> [] | Some v \<Rightarrow> [v])"

text \<open>
  The list \<open>params\<close> that the method binds to the query, in the order in which the source
  appends to it: the feature ids, the values of the keys that are present, the limit and
  the offset.
\<close>

definition params :: "filters \<Rightarrow> int \<Rightarrow> int \<Rightarrow> number list" where
  "params flt limit offset =
     (case features flt of None \<Rightarrow> [] | Some fs \<Rightarrow> map PyInt fs)
     @ param (min_price flt) @ param (max_price flt)
     @ param (min_area flt) @ param (max_area flt)
     @ map PyInt (param (district_id flt)) @ map PyInt (param (type_id flt))
     @ map PyInt (param (rooms flt))
     @ map (\<lambda>b. PyInt (flag b)) (param (has_balcony flt))
     @ map (\<lambda>b. PyInt (flag b)) (param (has_elevator flt))
     @ map (\<lambda>b. PyInt (flag b)) (param (has_parking flt))
     @ [PyInt limit, PyInt offset]"

text \<open>
  \<open>search_properties\<close>: \<open>self.cursor.execute(query, params)\<close> raises \<open>OverflowError\<close>, before
  it reads a row, when a parameter does not bind; otherwise the rows are fetched and each
  gets its lookups.
\<close>

definition search_properties :: "db \<Rightarrow> filters \<Rightarrow> int \<Rightarrow> int \<Rightarrow> error + property_dict list" where
  "search_properties s flt limit offset =
     (if list_all can_bind (params flt limit offset)
      then enrich_all s (search_rows s flt limit offset)
      else Inl OverflowError)"

subsection \<open>get_property_by_id and delete_property\<close>

text \<open>
  What the two \<open>UPDATE\<close> statements of the class that end in \<open>WHERE property_id = ?\<close> do
  to a row: \<open>SET views_count = views_count + 1\<close> and \<open>SET is_available = 0\<close>.
\<close>

definition viewed :: "int \<Rightarrow> property \<Rightarrow> property" where
  "viewed property_id p =
     (if row_id p = property_id then p\<lparr>p_views_count := p_views_count p + 1\<rparr> else p)"

definition unavailable :: "int \<Rightarrow> property \<Rightarrow> property" where
  "unavailable property_id p =
     (if row_id p = property_id then p\<lparr>p_is_available := 0\<rparr> else p)"

text \<open>
  \<open>get_property_by_id\<close> first runs and commits
  \<open>UPDATE Properties SET views_count = views_count + 1 WHERE property_id = ?\<close>, then reads
  the row back.  The first \<open>execute\<close> raises \<open>OverflowError\<close>, with the store untouched, when
  the id does not bind.  Otherwise the method returns \<open>None\<close> when there is no row and lets
  the \<open>TypeError\<close> of the lookups pass; the update is committed in either case.
\<close>

definition get_property_by_id :: "db \<Rightarrow> int \<Rightarrow> (error + property_dict option) \<times> db" where
  "get_property_by_id s property_id =
     (if \<not> int64 property_id then (Inl OverflowError, s)
      else
        let s' = s\<lparr>Properties := map (viewed property_id) (Properties s)\<rparr>
        in case fetchone [p \<leftarrow> Properties s'. row_id p = property_id] of
             None \<Rightarrow> (Inr None, s')
           | Some property_row \<Rightarrow>
               (case enrich s' property_row of
                  Inl e \<Rightarrow> (Inl e, s')
                | Inr property_dict \<Rightarrow> (Inr (Some property_dict), s')))"

text \<open>
  \<open>UPDATE Properties SET is_available = 0 WHERE property_id = ?\<close>, committed; the
  \<open>OverflowError\<close> of an id that does not bind leaves the method.
\<close>

definition delete_property :: "db \<Rightarrow> int \<Rightarrow> (error + bool) \<times> db" where
  "delete_property s property_id =
     (if \<not> int64 property_id then (Inl OverflowError, s)
      else
        (Inr True, s\<lparr>Properties := map (unavailable property_id) (Properties s)\<rparr>))"

subsection \<open>update_property\<close>

text \<open>The dictionary \<open>property_data\<close>: the columns of \<open>update_columns\<close> and the key \<open>features\<close>.\<close>

record property_data =
  new_title :: "str option"
  new_description :: "str option"
  new_type_id :: "int option"
  new_district_id :: "int option"
  new_address :: "str option"
  new_price :: "rat option"
  new_area :: "rat option"
  new_rooms :: "int option"
  new_floor :: "int option"
  new_total_floors :: "int option"
  new_year_built :: "int option"
  new_renovation_year :: "int option"
  new_has_balcony :: "int option"
  new_has_elevator :: "int option"
  new_has_parking :: "int option"
  new_image_url :: "str option"
  new_contact_phone :: "str option"
  new_contact_name :: "str option"
  new_latitude :: "rat option"
  new_longitude :: "rat option"
  new_is_available :: "int option"
  new_features :: "int list option"

definition no_data :: property_data where
  "no_data = \<lparr>new_title = None, new_description = None, new_type_id = None,
     new_district_id = None, new_address = None, new_price = None, new_area = None,
     new_rooms = None, new_floor = None, new_total_floors = None, new_year_built = None,
     new_renovation_year = None, new_has_balcony = None, new_has_elevator = None,
     new_has_parking = None, new_image_url = None, new_contact_phone = None,
     new_contact_name = None, new_latitude = None, new_longitude = None,
     new_is_available = None, new_features = None\<rparr>"

text \<open>One assignment \<open>col = ?\<close> for a column that is a key of \<open>property_data\<close>.\<close>

definition set_part :: "'v option \<Rightarrow> ('v \<Rightarrow> property \<Rightarrow> property) \<Rightarrow> (property \<Rightarrow> property) list" where
  "set_part entry assign = (case entry of None \<Rightarrow> [] | Some v \<Rightarrow> [assign v])"

text \<open>The loop \<open>for col in update_columns\<close> that fills \<open>set_parts\<close>.\<close>

definition set_parts :: "property_data \<Rightarrow> (property \<Rightarrow> property) list" where
  "set_parts d =
     set_part (new_title d) (\<lambda>v p. p\<lparr>p_title := v\<rparr>)
     @ set_part (new_description d) (\<lambda>v p. p\<lparr>p_description := v\<rparr>)
     @ set_part (new_type_id d) (\<lambda>v p. p\<lparr>p_type_id := v\<rparr>)
     @ set_part (new_district_id d) (\<lambda>v p. p\<lparr>p_district_id := v\<rparr>)
     @ set_part (new_address d) (\<lambda>v p. p\<lparr>p_address := v\<rparr>)
     @ set_part (new_price d) (\<lambda>v p. p\<lparr>p_price := v\<rparr>)
     @ set_part (new_area d) (\<lambda>v p. p\<lparr>p_area := v\<rparr>)
     @ set_part (new_rooms d) (\<lambda>v p. p\<lparr>p_rooms := v\<rparr>)
     @ set_part (new_floor d) (\<lambda>v p. p\<lparr>p_floor := v\<rparr>)
     @ set_part (new_total_floors d) (\<lambda>v p. p\<lparr>p_total_floors := v\<rparr>)
     @ set_part (new_year_built d) (\<lambda>v p. p\<lparr>p_year_built := v\<rparr>)
     @ set_part (new_renovation_year d) (\<lambda>v p. p\<lparr>p_renovation_year := v\<rparr>)
     @ set_part (new_has_balcony d) (\<lambda>v p. p\<lparr>p_has_balcony := v\<rparr>)
     @ set_part (new_has_elevator d) (\<lambda>v p. p\<lparr>p_has_elevator := v\<rparr>)
     @ set_part (new_has_parking d) (\<lambda>v p. p\<lparr>p_has_parking := v\<rparr>)
     @ set_part (new_image_url d) (\<lambda>v p. p\<lparr>p_image_url := v\<rparr>)
     @ set_part (new_contact_phone d) (\<lambda>v p. p\<lparr>p_contact_phone := v\<rparr>)
     @ set_part (new_contact_name d) (\<lambda>v p. p\<lparr>p_contact_name := v\<rparr>)
     @ set_part (new_latitude d) (\<lambda>v p. p\<lparr>p_latitude := v\<rparr>)
     @ set_part (new_longitude d) (\<lambda>v p. p\<lparr>p_longitude := v\<rparr>)
     @ set_part (new_is_available d) (\<lambda>v p. p\<lparr>p_is_available := v\<rparr>)"

text \<open>
  Modelled from the spec: \<open>schema.sql\<close>, which declares the key of \<open>PropertyFeatures\<close>, is
  not among the sources; the specification says that the associations hold no pair twice.
  The loop of \<open>INSERT INTO PropertyFeatures\<close> therefore fails (\<open>None\<close>, the
  \<open>sqlite3.IntegrityError\<close> of the source) at a pair that is already there.
\<close>

fun insert_features :: "pf_row list \<Rightarrow> 64 word \<Rightarrow> int list \<Rightarrow> pf_row list option" where
  "insert_features pfs property_id [] = Some pfs"
| "insert_features pfs property_id (feature_id # fs) =
     (let pf = \<lparr>pf_property_id = property_id, pf_feature_id = feature_id\<rparr>
      in if pf \<in> set pfs then None else insert_features (pfs @ [pf]) property_id fs)"

text \<open>
  \<open>update_property\<close>: with no column to set it returns \<open>False\<close> at once.  Otherwise it
  updates the row, replaces the associations when the key \<open>features\<close> is present, and
  commits; on an \<open>sqlite3.Error\<close> it rolls back to the store it started from.  The id and
  the values that its statements bind are taken to be within 64 bits, so the id is the
  word that \<open>word_of_int\<close> gives.
\<close>

definition update_property :: "db \<Rightarrow> int \<Rightarrow> property_data \<Rightarrow> bool \<times> db" where
  "update_property s property_id d =
     (if set_parts d = [] then (False, s)
      else
        let s1 = s\<lparr>Properties :=
                     map (\<lambda>p. if row_id p = property_id
                               then fold (\<lambda>assign row. assign row) (set_parts d) p else p)
                         (Properties s)\<rparr>
        in case new_features d of
             None \<Rightarrow> (True, s1)
           | Some fs \<Rightarrow>
               (let kept = [pf \<leftarrow> PropertyFeatures s1. sint (pf_property_id pf) \<noteq> property_id]
                in case insert_features kept (word_of_int property_id) fs of
                     None \<Rightarrow> (False, s)
                   | Some pfs \<Rightarrow> (True, s1\<lparr>PropertyFeatures := pfs\<rparr>)))"

subsection \<open>get_statistics\<close>

record stats =
  total_properties :: nat
  average_price :: rat
  average_area :: rat
  types :: "(str \<times> nat) list"
  districts :: "(str \<times> nat) list"
  popular_features :: "(str \<times> nat) list"

text \<open>The aggregate \<open>AVG\<close>: NULL, which Python reads as \<open>None\<close>, over no rows.\<close>

definition sql_avg :: "rat list \<Rightarrow> rat option" where
  "sql_avg xs = (if xs = [] then None else Some (sum_list xs / of_nat (length xs)))"

text \<open>
  \<open>round(x, 2)\<close>: \<open>TypeError\<close> for \<open>None\<close>.  For a number the model gives the nearest
  multiple of 1/100 of the exact average, the even one of two that are equally near;
  Python rounds the floating-point number that SQLite computed, which can differ from this
  in the last digit.
\<close>

definition round_half_even :: "rat \<Rightarrow> int" where
  "round_half_even y =
     (let f = \<lfloor>y\<rfloor>; r = y - of_int f
      in if r < 1 / 2 then f else if 1 / 2 < r then f + 1 else if even f then f else f + 1)"

definition py_round2 :: "rat option \<Rightarrow> error + rat" where
  "py_round2 x = (case x of None \<Rightarrow> Inl TypeError
                  | Some v \<Rightarrow> Inr (of_int (round_half_even (v * 100)) / 100))"

text \<open>\<open>SELECT name, COUNT(*) ... GROUP BY name\<close>: one row for each name, in the order of the names.\<close>

definition group_count :: "str list \<Rightarrow> (str \<times> nat) list" where
  "group_count names = map (\<lambda>n. (n, count_list names n)) (sort (remdups names))"

text \<open>
  \<open>ORDER BY count DESC\<close> on the groups.  SQL leaves the order of groups with equal counts
  open; SQLite returns them in the reverse of the order in which they reach the sort.
\<close>

definition order_by_count_desc :: "(str \<times> nat) list \<Rightarrow> (str \<times> nat) list" where
  "order_by_count_desc groups = rev (sort_key (\<lambda>(n, c). c) groups)"

definition get_statistics :: "db \<Rightarrow> error + stats" where
  "get_statistics s =
     (let available = [p \<leftarrow> Properties s. p_is_available p = 1]
      in case py_round2 (sql_avg (map p_price available)) of
           Inl e \<Rightarrow> Inl e
         | Inr avg_price \<Rightarrow>
             (case py_round2 (sql_avg (map p_area available)) of
                Inl e \<Rightarrow> Inl e
              | Inr avg_area \<Rightarrow>
                  Inr \<lparr>total_properties = length available,
                       average_price = avg_price,
                       average_area = avg_area,
                       types = group_count
                         [pt_name pt. p \<leftarrow> available, pt \<leftarrow> PropertyTypes s,
                                      p_type_id p = pt_type_id pt],
                       districts = group_count
                         [d_name d. p \<leftarrow> available, d \<leftarrow> Districts s,
                                    p_district_id p = d_district_id d],
                       popular_features = take 5 (order_by_count_desc (group_count
                         [f_name f. pf \<leftarrow> PropertyFeatures s, f \<leftarrow> Features s,
                                    pf_feature_id pf = f_feature_id f, p \<leftarrow> available,
                                    pf_property_id pf = p_property_id p]))\<rparr>))"

subsection \<open>natural_language_search\<close>

text \<open>
  What the method takes from the Python interpreter and its Unicode tables, which are not
  part of the repository: \<open>str.lower\<close>, the value of a code point that is a decimal digit
  (the class \<open>\d\<close> of \<open>re\<close> and the digits \<open>int\<close> reads), and the limit on the number of
  digits that \<open>int\<close> converts (\<open>sys.get_int_max_str_digits()\<close>; 0 is no limit).
\<close>

record pyenv =
  str_lower :: "str \<Rightarrow> str"
  decimal_value :: "nat \<Rightarrow> nat option"
  int_max_str_digits :: nat

text \<open>The class \<open>\s\<close> of \<open>re\<close> on a \<open>str\<close>: the code points for which \<open>str.isspace\<close> holds.\<close>

definition isspace :: "nat \<Rightarrow> bool" where
  "isspace c =
     ((9 \<le> c \<and> c \<le> 13) \<or> (28 \<le> c \<and> c \<le> 32) \<or> c = 133 \<or> c = 160 \<or> c = 5760
      \<or> (8192 \<le> c \<and> c \<le> 8202) \<or> c = 8232 \<or> c = 8233 \<or> c = 8239 \<or> c = 8287
      \<or> c = 12288)"

definition isdecimal :: "pyenv \<Rightarrow> nat \<Rightarrow> bool" where
  "isdecimal env c = (case decimal_value env c of None \<Rightarrow> False | Some _ \<Rightarrow> True)"

text \<open>
  The four patterns are sequences of three kinds of items: a literal character, \<open>\s+\<close>,
  and the group \<open>(\d+)\<close>.
\<close>

datatype re_item = Lit nat | Spaces | Digits

text \<open>The first result among the alternatives of a backtracking choice.\<close>

fun first_some :: "'a option list \<Rightarrow> 'a option" where
  "first_some [] = None"
| "first_some (None # xs) = first_some xs"
| "first_some (Some x # xs) = Some x"

text \<open>
  Matching a pattern at the start of a text; the result is group 1.  A repetition is
  greedy: it first takes every character it can, then gives them back one at a time
  while the rest of the pattern fails.
\<close>

fun match_here :: "pyenv \<Rightarrow> re_item list \<Rightarrow> str \<Rightarrow> str \<Rightarrow> str option" where
  "match_here env [] s group1 = Some group1"
| "match_here env (Lit c # items) s group1 =
     (case s of [] \<Rightarrow> None
      | x # rest \<Rightarrow> if x = c then match_here env items rest group1 else None)"
| "match_here env (Spaces # items) s group1 =
     first_some (map (\<lambda>k. match_here env items (drop k s) group1)
                     (rev [1 ..< Suc (length (takeWhile isspace s))]))"
| "match_here env (Digits # items) s group1 =
     first_some (map (\<lambda>k. match_here env items (drop k s) (take k s))
                     (rev [1 ..< Suc (length (takeWhile (isdecimal env) s))]))"

text \<open>\<open>re.search(pattern, s)\<close> followed by \<open>.group(1)\<close>: the leftmost match, \<open>None\<close> without one.\<close>

fun re_search :: "pyenv \<Rightarrow> re_item list \<Rightarrow> str \<Rightarrow> str option" where
  "re_search env pattern [] = match_here env pattern [] []"
| "re_search env pattern (c # s) =
     (case match_here env pattern (c # s) [] of
        Some group1 \<Rightarrow> Some group1
      | None \<Rightarrow> re_search env pattern s)"

text \<open>
  \<open>int(digits)\<close> on a string of decimal digits; \<open>None\<close> is the \<open>ValueError\<close> that the
  source catches and passes over.
\<close>

fun int_digits :: "pyenv \<Rightarrow> int \<Rightarrow> str \<Rightarrow> int option" where
  "int_digits env acc [] = Some acc"
| "int_digits env acc (c # cs) =
     (case decimal_value env c of
        None \<Rightarrow> None
      | Some d \<Rightarrow> int_digits env (acc * 10 + int d) cs)"

definition py_int :: "pyenv \<Rightarrow> str \<Rightarrow> int option" where
  "py_int env digits =
     (if digits = [] then None
      else if int_max_str_digits env \<noteq> 0 \<and> int_max_str_digits env < length digits then None
      else int_digits env 0 digits)"

text \<open>The test \<open>word in s\<close> on strings.\<close>

fun startswith :: "str \<Rightarrow> str \<Rightarrow> bool" where
  "startswith s [] = True"
| "startswith [] (c # word) = False"
| "startswith (x # s) (c # word) = (x = c \<and> startswith s word)"

fun str_in :: "str \<Rightarrow> str \<Rightarrow> bool" where
  "str_in word [] = (word = [])"
| "str_in word (x # s) = (startswith (x # s) word \<or> str_in word s)"

text \<open>
  The patterns of the source: \<open>r'ot\s+(\d+)'\<close>, \<open>r'do\s+(\d+)'\<close>,
  \<open>r'ploshchad\s+ot\s+(\d+)'\<close> and \<open>r'ploshchad\s+do\s+(\d+)'\<close>, written with the code
  points of their Cyrillic letters.
\<close>

definition min_price_pattern :: "re_item list" where
  "min_price_pattern = [Lit 1086, Lit 1090, Spaces, Digits]"

definition max_price_pattern :: "re_item list" where
  "max_price_pattern = [Lit 1076, Lit 1086, Spaces, Digits]"

definition ploshchad :: "re_item list" where
  "ploshchad = map Lit [1087, 1083, 1086, 1097, 1072, 1076, 1100]"

definition min_area_pattern :: "re_item list" where
  "min_area_pattern = ploshchad @ [Spaces, Lit 1086, Lit 1090, Spaces, Digits]"

definition max_area_pattern :: "re_item list" where
  "max_area_pattern = ploshchad @ [Spaces, Lit 1076, Lit 1086, Spaces, Digits]"

text \<open>
  One of the four blocks \<open>m = re.search(...); if m: try: filters[key] = int(m.group(1))
  except ValueError: pass\<close>; the result is the value to store, if any.
\<close>

definition extract_int :: "pyenv \<Rightarrow> re_item list \<Rightarrow> str \<Rightarrow> number option" where
  "extract_int env pattern query_text =
     (case re_search env pattern query_text of
        None \<Rightarrow> None
      | Some group1 \<Rightarrow> map_option PyInt (py_int env group1))"

text \<open>
  The steps of \<open>natural_language_search\<close> on the lowered text.  The type: the first of
  the keywords \<open>kvartira\<close>, \<open>dom\<close>, \<open>studiya\<close> that occurs (\<open>if\<close>, \<open>elif\<close>, \<open>elif\<close>).
\<close>

definition type_keyword :: "str \<Rightarrow> int option" where
  "type_keyword low =
     (if str_in [1082, 1074, 1072, 1088, 1090, 1080, 1088, 1072] low then Some 1
      else if str_in [1076, 1086, 1084] low then Some 2
      else if str_in [1089, 1090, 1091, 1076, 1080, 1103] low then Some 3
      else None)"

text \<open>The district: the first row of \<open>Districts\<close> whose lowered name occurs (\<open>break\<close>).\<close>

definition district_keyword :: "pyenv \<Rightarrow> db \<Rightarrow> str \<Rightarrow> int option" where
  "district_keyword env s low =
     (case [d \<leftarrow> Districts s. str_in (str_lower env (d_name d)) low] of
        [] \<Rightarrow> None
      | district # _ \<Rightarrow> Some (d_district_id district))"

text \<open>
  The rooms: the first \<open>i\<close> of \<open>range(1, 10)\<close> for which \<open>{i}-komnatn\<close> or \<open>{i} komnat\<close>
  occurs; \<open>48 + i\<close> is the digit that \<open>i\<close> prints as.
\<close>

definition rooms_keyword :: "str \<Rightarrow> int option" where
  "rooms_keyword low =
     (case [i \<leftarrow> [1 ..< 10].
              str_in ((48 + i) # [45, 1082, 1086, 1084, 1085, 1072, 1090, 1085]) low
              \<or> str_in ((48 + i) # [32, 1082, 1086, 1084, 1085, 1072, 1090]) low] of
        [] \<Rightarrow> None
      | i # _ \<Rightarrow> Some (int i))"

text \<open>The list \<open>feature_ids\<close>: every row of \<open>Features\<close> whose lowered name occurs.\<close>

definition feature_keywords :: "pyenv \<Rightarrow> db \<Rightarrow> str \<Rightarrow> int list" where
  "feature_keywords env s low =
     [f_feature_id f. f \<leftarrow> Features s, str_in (str_lower env (f_name f)) low]"

text \<open>An amenity: the key is set to \<open>True\<close> when the word occurs and is absent otherwise.\<close>

definition amenity :: "bool \<Rightarrow> bool option" where
  "amenity found = (if found then Some True else None)"

text \<open>
  The dictionary \<open>filters\<close> that \<open>natural_language_search\<close> builds.  Each step of the
  source stores under a key of its own: the type, the district, the rooms and the
  features from the lowered text, the four numbers from the text as it is, and the
  amenities from the words \<open>balkon\<close>, \<open>lift\<close>, \<open>parkovk\<close> or \<open>parking\<close>.
\<close>

definition nl_filters :: "pyenv \<Rightarrow> db \<Rightarrow> str \<Rightarrow> filters" where
  "nl_filters env s query_text =
     (let low = str_lower env query_text;
          feature_ids = feature_keywords env s low
      in \<lparr>features = (if feature_ids \<noteq> [] then Some feature_ids else None),
          min_price = extract_int env min_price_pattern query_text,
          max_price = extract_int env max_price_pattern query_text,
          min_area = extract_int env min_area_pattern query_text,
          max_area = extract_int env max_area_pattern query_text,
          district_id = district_keyword env s low,
          type_id = type_keyword low,
          rooms = rooms_keyword low,
          has_balcony = amenity (str_in [1073, 1072, 1083, 1082, 1086, 1085] low),
          has_elevator = amenity (str_in [1083, 1080, 1092, 1090] low),
          has_parking = amenity (str_in [1087, 1072, 1088, 1082, 1086, 1074, 1082] low
                                 \<or> str_in [1087, 1072, 1088, 1082, 1080, 1085, 1075] low)\<rparr>)"

definition natural_language_search :: "pyenv \<Rightarrow> db \<Rightarrow> str \<Rightarrow> error + property_dict list" where
  "natural_language_search env s query_text =
     search_properties s (nl_filters env s query_text) 10 0"

subsection \<open>The keys of the schema\<close>

text \<open>
  Modelled from the spec: \<open>schema.sql\<close>, which declares the keys of the tables, is not
  among the sources.  The specification says that a listing always resolves to exactly one
  type and one district.  \<open>resolves\<close> says so of one row, \<open>integrity\<close> of every row of
  \<open>Properties\<close>.
\<close>

definition resolves :: "db \<Rightarrow> property \<Rightarrow> bool" where
  "resolves s p =
     (list_ex (\<lambda>pt. pt_type_id pt = p_type_id p) (PropertyTypes s)
      \<and> list_ex (\<lambda>d. d_district_id d = p_district_id p) (Districts s))"

definition integrity :: "db \<Rightarrow> bool" where
  "integrity s = list_all (resolves s) (Properties s)"

subsection \<open>A small store and an interpreter to run the methods on\<close>

text \<open>
  CPython 3.11, whose tables are those of Unicode 14.  The decimal digits come in 66
  blocks of ten, each from its zero to its nine; \<open>nd_zeros\<close> lists the zeros.  \<open>int\<close>
  converts at most 4300 digits.  Of \<open>str.lower\<close> the instance has the Latin letters \<open>A-Z\<close>
  and the Cyrillic capitals, which it moves to their small forms; it leaves every other
  character as it is.
\<close>

definition nd_zeros :: "nat list" where
  "nd_zeros =
     [48, 1632, 1776, 1984, 2406, 2534, 2662, 2790, 2918, 3046, 3174, 3302, 3430, 3558,
      3664, 3792, 3872, 4160, 4240, 6112, 6160, 6470, 6608, 6784, 6800, 6992, 7088, 7232,
      7248, 42528, 43216, 43264, 43472, 43504, 43600, 44016, 65296, 66720, 68912, 69734,
      69872, 69942, 70096, 70384, 70736, 70864, 71248, 71360, 71472, 71904, 72016, 72784,
      73040, 73120, 92768, 92864, 93008, 120782, 120792, 120802, 120812, 120822, 123200,
      123632, 125264, 130032]"

definition unicode_decimal :: "nat \<Rightarrow> nat option" where
  "unicode_decimal c =
     (case [z \<leftarrow> nd_zeros. z \<le> c \<and> c < z + 10] of [] \<Rightarrow> None | z # _ \<Rightarrow> Some (c - z))"

definition lower_char :: "nat \<Rightarrow> nat" where
  "lower_char c =
     (if (65 \<le> c \<and> c \<le> 90) \<or> (1040 \<le> c \<and> c \<le> 1071) then c + 32
      else if 1024 \<le> c \<and> c \<le> 1039 then c + 80 else c)"

definition cpython :: pyenv where
  "cpython = \<lparr>str_lower = map lower_char,
               decimal_value = unicode_decimal,
               int_max_str_digits = 4300\<rparr>"

definition listing :: "64 word \<Rightarrow> int \<Rightarrow> int \<Rightarrow> rat \<Rightarrow> rat \<Rightarrow> int \<Rightarrow> int \<Rightarrow> int \<Rightarrow> int \<Rightarrow> property" where
  "listing pid ty di pr ar ro av vc da =
     \<lparr>p_property_id = pid, p_title = [], p_description = [], p_type_id = ty,
      p_district_id = di, p_address = [], p_price = pr, p_area = ar, p_rooms = ro,
      p_floor = 1, p_total_floors = 5, p_year_built = 2000, p_renovation_year = 2010,
      p_has_balcony = 1, p_has_elevator = 0, p_has_parking = 0, p_image_url = [],
      p_contact_phone = [], p_contact_name = [], p_latitude = 0, p_longitude = 0,
      p_is_available = av, p_views_count = vc, p_date_added = da\<rparr>"

text \<open>
  Three listings, the third one deleted; the features \<open>bassein\<close> (1) and \<open>sad\<close> (2), the
  types \<open>kvartira\<close> (1) and \<open>dom\<close> (2), the districts \<open>Tsentr\<close> (1) and \<open>Sever\<close> (2).
\<close>

definition demo_db :: db where
  "demo_db =
     \<lparr>Properties =
        [listing 1 1 1 100000 50 2 1 7 30,
         listing 2 2 1 250000 120 4 1 0 20,
         listing 3 1 2 80000 40 1 0 3 10],
      PropertyFeatures =
        [\<lparr>pf_property_id = 1, pf_feature_id = 1\<rparr>, \<lparr>pf_property_id = 1, pf_feature_id = 2\<rparr>,
         \<lparr>pf_property_id = 2, pf_feature_id = 2\<rparr>, \<lparr>pf_property_id = 3, pf_feature_id = 1\<rparr>],
      Features =
        [\<lparr>f_feature_id = 1, f_name = [1073, 1072, 1089, 1089, 1077, 1081, 1085]\<rparr>,
         \<lparr>f_feature_id = 2, f_name = [1089, 1072, 1076]\<rparr>],
      PropertyTypes =
        [\<lparr>pt_type_id = 1, pt_name = [1082, 1074, 1072, 1088, 1090, 1080, 1088, 1072]\<rparr>,
         \<lparr>pt_type_id = 2, pt_name = [1076, 1086, 1084]\<rparr>],
      Districts =
        [\<lparr>d_district_id = 1, d_name = [1062, 1077, 1085, 1090, 1088], d_popularity = 10\<rparr>,
         \<lparr>d_district_id = 2, d_name = [1057, 1077, 1074, 1077, 1088], d_popularity = 5\<rparr>]\<rparr>"

text \<open>A store in which no listing is available: \<open>demo_db\<close> with every listing deleted.\<close>

definition sold_out_db :: db where
  "sold_out_db = demo_db\<lparr>Properties := [listing 3 1 2 80000 40 1 0 3 10]\<rparr>"

section \<open>Properties\<close>

subsection \<open>The parameters that bind\<close>

lemma int64_sint: "int64 (sint (w :: 64 word))"
  using sint_ge [of w] sint_lt [of w] by (simp add: int64_def)

lemma int64_row_id: "row_id p = property_id \<Longrightarrow> int64 property_id"
  using int64_sint [of "p_property_id p"] by (simp add: row_id_def)

lemma params_bind:
  "list_all can_bind (params flt limit offset)
     = (list_all can_bind (params flt 0 0) \<and> int64 limit \<and> int64 offset)"
  by (simp add: params_def can_bind_def int64_def)

subsection \<open>An empty feature list\<close>

lemma conditions_features_update [simp]:
  "conditions (flt\<lparr>features := fs\<rparr>) = conditions flt"
  by (simp add: fun_eq_iff conditions_def)

lemma select_rows_no_features:
  "select_rows s (flt\<lparr>features := Some []\<rparr>) = select_rows s (flt\<lparr>features := None\<rparr>)"
  by (simp add: select_rows_def)

lemma params_no_features:
  "params (flt\<lparr>features := Some []\<rparr>) limit offset = params (flt\<lparr>features := None\<rparr>) limit offset"
  by (simp add: params_def)

text \<open>
  C9: for every limit and offset, \<open>search_properties\<close> with a filter whose key
  \<open>features\<close> is present with an empty list returns what it returns for the same filter
  without the key: the empty list constrains nothing.
\<close>

theorem search_empty_features:
  "search_properties s (flt\<lparr>features := Some []\<rparr>) limit offset
     = search_properties s (flt\<lparr>features := None\<rparr>) limit offset"
  by (simp add: search_properties_def search_rows_def select_rows_no_features
      params_no_features)

subsection \<open>The rows under the dictionaries of a result\<close>

lemma enrich_truncate: "enrich s row = Inr d \<Longrightarrow> property.truncate d = row"
  by (auto simp: enrich_def property.truncate_def property.extend_def split: option.splits)

lemma enrich_all_truncate: "enrich_all s rows = Inr res \<Longrightarrow> map property.truncate res = rows"
  by (induction rows arbitrary: res) (auto split: sum.splits dest: enrich_truncate)

lemma enrich_all_append:
  "enrich_all s (xs @ ys) =
     (case enrich_all s xs of
        Inl e \<Rightarrow> Inl e
      | Inr a \<Rightarrow> (case enrich_all s ys of Inl e \<Rightarrow> Inl e | Inr b \<Rightarrow> Inr (a @ b)))"
  by (induction xs) (auto split: sum.splits)

subsection \<open>Pagination\<close>

text \<open>
  C7: for every filter, the first page of five results followed by the second page of five
  is the page of ten.  The ordering of the filtered rows is the stable one of
  \<open>order_by_date_added_desc\<close>, the same in the three queries.  When a call raises, the
  two sides raise alike: a value of the filter that does not bind stops each of the three
  calls, and an exception of a lookup in either page is the exception of the sequence of
  the two calls.
\<close>

theorem search_pagination:
  "(case search_properties s flt 5 0 of
      Inl e \<Rightarrow> Inl e
    | Inr first_page \<Rightarrow>
        (case search_properties s flt 5 5 of
           Inl e \<Rightarrow> Inl e
         | Inr second_page \<Rightarrow> Inr (first_page @ second_page)))
   = search_properties s flt 10 0"
proof (cases "list_all can_bind (params flt 0 0)")
  case False
  then have "search_properties s flt limit offset = Inl OverflowError" for limit offset
    by (simp add: search_properties_def params_bind [of flt limit offset])
  then show ?thesis by simp
next
  case True
  define rows where "rows = order_by_date_added_desc (remdups (select_rows s flt))"
  have binds: "list_all can_bind (params flt 5 0)" "list_all can_bind (params flt 5 5)"
    "list_all can_bind (params flt 10 0)"
    using True
    by (simp_all add: params_bind [of flt 5 0] params_bind [of flt 5 5]
        params_bind [of flt 10 0] int64_def)
  have first_page: "search_properties s flt 5 0 = enrich_all s (take 5 rows)"
    using binds by (simp add: search_properties_def search_rows_def limit_offset_def rows_def)
  have second_page: "search_properties s flt 5 5 = enrich_all s (take 5 (drop 5 rows))"
    using binds by (simp add: search_properties_def search_rows_def limit_offset_def rows_def)
  have "take 10 rows = take 5 rows @ take 5 (drop 5 rows)"
    using take_add [of 5 5 rows] by simp
  then have both: "search_properties s flt 10 0 = enrich_all s (take 5 rows @ take 5 (drop 5 rows))"
    using binds by (simp add: search_properties_def search_rows_def limit_offset_def rows_def)
  show ?thesis
    unfolding first_page second_page both enrich_all_append by (rule refl)
qed

subsection \<open>An update without columns\<close>

lemma set_parts_no_data: "set_parts (no_data\<lparr>new_features := fs\<rparr>) = []"
  by (simp add: set_parts_def set_part_def no_data_def)

text \<open>
  C5: for every property id, \<open>update_property\<close> with a dictionary that names no column
  (with or without the key \<open>features\<close>) returns \<open>False\<close> and the store it was given: the
  test \<open>if not set_parts\<close> comes before the first statement that the method would execute.
\<close>

theorem update_property_no_fields:
  "update_property s property_id (no_data\<lparr>new_features := fs\<rparr>) = (False, s)"
  by (simp add: update_property_def set_parts_no_data)

subsection \<open>Looking up an id that is not there\<close>

lemma map_unchanged: "\<forall>x \<in> set xs. \<not> P x \<Longrightarrow> map (\<lambda>x. if P x then f x else x) xs = xs"
  by (induction xs) auto

text \<open>
  C10: for every property id that no row of the store has, \<open>get_property_by_id\<close> returns
  \<open>None\<close> and the store is the one it was given, view counters included.  The id is one
  that SQLite can look up, an integer of 64 bits; the method raises \<open>OverflowError\<close> for
  any other.
\<close>

theorem get_property_by_id_absent:
  assumes "int64 property_id" and "property_id \<notin> row_id ` set (Properties s)"
  shows "get_property_by_id s property_id = (Inr None, s)"
proof -
  from assms(2) have none: "\<forall>p \<in> set (Properties s). \<not> row_id p = property_id"
    by auto
  then have "[p \<leftarrow> Properties s. row_id p = property_id] = []"
    by (simp add: filter_empty_conv)
  with map_unchanged [OF none] assms(1) show ?thesis
    by (simp add: get_property_by_id_def fetchone_def Let_def viewed_def [abs_def])
qed

theorem get_property_by_id_absent_witness:
  "int64 99 \<and> 99 \<notin> row_id ` set (Properties demo_db)
   \<and> get_property_by_id demo_db 99 = (Inr None, demo_db)"
proof -
  have h0: "int64 99" by (simp add: int64_def)
  have h: "99 \<notin> row_id ` set (Properties demo_db)"
    by (simp add: demo_db_def listing_def row_id_def)
  from get_property_by_id_absent [OF h0 h] h0 h show ?thesis by simp
qed

subsection \<open>Statistics of a store without available listings\<close>

text \<open>
  C1: the claim is that \<open>get_statistics\<close> on a store with no available listing returns a
  total of 0 and a sentinel for the two averages.  The method does not return: \<open>AVG\<close>
  over no rows is \<open>None\<close>, \<open>round(None, 2)\<close> raises \<open>TypeError\<close>, and the handler of the
  method catches \<open>sqlite3.Error\<close> only.
\<close>

theorem get_statistics_none_available: "get_statistics sold_out_db = Inl TypeError"
  by (simp add: get_statistics_def sold_out_db_def demo_db_def listing_def sql_avg_def
      py_round2_def)

subsection \<open>The view counter\<close>

text \<open>
  C8: for every id of a listing in the store (the row at any index \<open>i\<close> that carries the
  id), a call of \<open>get_property_by_id\<close> leaves a store in which the view counter of that
  row is one higher and its other fields are as before, every row with another id and
  the other four tables are unchanged, and no row is added or removed.  This holds whether
  the call returns the listing or raises in its lookups, since the update is committed
  first.
\<close>

theorem get_property_by_id_counts_view:
  assumes "i < length (Properties s)" and "row_id (Properties s ! i) = property_id"
  shows "let s' = snd (get_property_by_id s property_id)
         in p_views_count (Properties s' ! i) = p_views_count (Properties s ! i) + 1
            \<and> (Properties s' ! i)\<lparr>p_views_count := p_views_count (Properties s ! i)\<rparr>
                = Properties s ! i
            \<and> length (Properties s') = length (Properties s)
            \<and> (\<forall>j < length (Properties s).
                  row_id (Properties s ! j) \<noteq> property_id
                  \<longrightarrow> Properties s' ! j = Properties s ! j)
            \<and> PropertyFeatures s' = PropertyFeatures s \<and> Features s' = Features s
            \<and> PropertyTypes s' = PropertyTypes s \<and> Districts s' = Districts s"
proof -
  from assms(2) have "int64 property_id" by (rule int64_row_id)
  then have "snd (get_property_by_id s property_id) =
          s\<lparr>Properties := map (viewed property_id) (Properties s)\<rparr>"
    by (simp add: get_property_by_id_def Let_def split: option.splits sum.splits)
  with assms show ?thesis
    by (simp add: Let_def viewed_def)
qed

theorem get_property_by_id_counts_view_witness:
  "(1::nat) < length (Properties demo_db) \<and> row_id (Properties demo_db ! 1) = 2
   \<and> p_views_count (Properties demo_db ! 1) = 0
   \<and> p_views_count (Properties (snd (get_property_by_id demo_db 2)) ! 1) = 1
   \<and> Properties (snd (get_property_by_id demo_db 2)) ! 0 = Properties demo_db ! 0"
proof -
  have h1: "(1::nat) < length (Properties demo_db)" by (simp add: demo_db_def)
  have h2: "row_id (Properties demo_db ! 1) = 2"
    by (simp add: demo_db_def listing_def row_id_def)
  have before: "p_views_count (Properties demo_db ! 1) = 0"
    by (simp add: demo_db_def listing_def)
  have other: "(0::nat) < length (Properties demo_db)" "row_id (Properties demo_db ! 0) \<noteq> 2"
    by (simp_all add: demo_db_def listing_def row_id_def)
  let ?s' = "snd (get_property_by_id demo_db 2)"
  from get_property_by_id_counts_view [OF h1 h2]
  have a: "p_views_count (Properties ?s' ! 1) = p_views_count (Properties demo_db ! 1) + 1"
    and o: "\<forall>j < length (Properties demo_db).
                  row_id (Properties demo_db ! j) \<noteq> 2
                  \<longrightarrow> Properties ?s' ! j = Properties demo_db ! j"
    by (simp_all add: Let_def)
  from o other have "Properties ?s' ! 0 = Properties demo_db ! 0" by blast
  with a before h1 h2 show ?thesis by simp
qed

subsection \<open>The numeric patterns of the translation\<close>

lemma range_1_10: "[1 ..< 10] = [1, 2, 3, 4, 5, 6, 7, 8, 9 :: nat]"
  by (simp add: upt_rec)

lemma cpython_digits:
  "decimal_value cpython 48 = Some 0" "decimal_value cpython 53 = Some 5"
  "decimal_value cpython 56 = Some 8"
  by (simp_all add: cpython_def unicode_decimal_def nd_zeros_def)

lemma cpython_no_digits:
  "decimal_value cpython 32 = None" "decimal_value cpython 1086 = None"
  "decimal_value cpython 1090 = None" "decimal_value cpython 1076 = None"
  by (simp_all add: cpython_def unicode_decimal_def nd_zeros_def)

lemma cpython_limit: "int_max_str_digits cpython = 4300"
  by (simp add: cpython_def)

lemma area_from_50:
  "nl_filters cpython demo_db
     [1087, 1083, 1086, 1097, 1072, 1076, 1100, 32, 1086, 1090, 32, 53, 48]
   = no_filters\<lparr>min_price := Some (PyInt 50), min_area := Some (PyInt 50)\<rparr>"
proof -
  let ?t = "[1087, 1083, 1086, 1097, 1072, 1076, 1100, 32, 1086, 1090, 32, 53, 48] :: str"
  have low: "str_lower cpython ?t = ?t"
    by (simp add: cpython_def lower_char_def)
  have n1: "extract_int cpython min_price_pattern ?t = Some (PyInt 50)"
    by (simp add: extract_int_def min_price_pattern_def isspace_def isdecimal_def
        cpython_digits cpython_no_digits cpython_limit py_int_def)
  have n2: "extract_int cpython max_price_pattern ?t = None"
    by (simp add: extract_int_def max_price_pattern_def isspace_def isdecimal_def
        cpython_digits cpython_no_digits cpython_limit py_int_def)
  have n3: "extract_int cpython min_area_pattern ?t = Some (PyInt 50)"
    by (simp add: extract_int_def min_area_pattern_def ploshchad_def isspace_def isdecimal_def
        cpython_digits cpython_no_digits cpython_limit py_int_def)
  have n4: "extract_int cpython max_area_pattern ?t = None"
    by (simp add: extract_int_def max_area_pattern_def ploshchad_def isspace_def isdecimal_def
        cpython_digits cpython_no_digits cpython_limit py_int_def)
  have k1: "type_keyword ?t = None" by (simp add: type_keyword_def)
  have k2: "district_keyword cpython demo_db ?t = None"
    by (simp add: district_keyword_def demo_db_def cpython_def lower_char_def)
  have k3: "rooms_keyword ?t = None" by (simp add: rooms_keyword_def range_1_10)
  have k4: "feature_keywords cpython demo_db ?t = []"
    by (simp add: feature_keywords_def demo_db_def cpython_def lower_char_def)
  have k5: "str_in [1073, 1072, 1083, 1082, 1086, 1085] ?t = False"
    "str_in [1083, 1080, 1092, 1090] ?t = False"
    "str_in [1087, 1072, 1088, 1082, 1086, 1074, 1082] ?t = False"
    "str_in [1087, 1072, 1088, 1082, 1080, 1085, 1075] ?t = False"
    by simp_all
  show ?thesis
    unfolding nl_filters_def Let_def low n1 n2 n3 n4 k1 k2 k3 k4 k5
    by (simp add: no_filters_def amenity_def)
qed

lemma area_to_80:
  "nl_filters cpython demo_db
     [1087, 1083, 1086, 1097, 1072, 1076, 1100, 32, 1076, 1086, 32, 56, 48]
   = no_filters\<lparr>max_price := Some (PyInt 80), max_area := Some (PyInt 80)\<rparr>"
proof -
  let ?t = "[1087, 1083, 1086, 1097, 1072, 1076, 1100, 32, 1076, 1086, 32, 56, 48] :: str"
  have low: "str_lower cpython ?t = ?t"
    by (simp add: cpython_def lower_char_def)
  have n1: "extract_int cpython min_price_pattern ?t = None"
    by (simp add: extract_int_def min_price_pattern_def isspace_def isdecimal_def
        cpython_digits cpython_no_digits cpython_limit py_int_def)
  have n2: "extract_int cpython max_price_pattern ?t = Some (PyInt 80)"
    by (simp add: extract_int_def max_price_pattern_def isspace_def isdecimal_def
        cpython_digits cpython_no_digits cpython_limit py_int_def)
  have n3: "extract_int cpython min_area_pattern ?t = None"
    by (simp add: extract_int_def min_area_pattern_def ploshchad_def isspace_def isdecimal_def
        cpython_digits cpython_no_digits cpython_limit py_int_def)
  have n4: "extract_int cpython max_area_pattern ?t = Some (PyInt 80)"
    by (simp add: extract_int_def max_area_pattern_def ploshchad_def isspace_def isdecimal_def
        cpython_digits cpython_no_digits cpython_limit py_int_def)
  have k1: "type_keyword ?t = None" by (simp add: type_keyword_def)
  have k2: "district_keyword cpython demo_db ?t = None"
    by (simp add: district_keyword_def demo_db_def cpython_def lower_char_def)
  have k3: "rooms_keyword ?t = None" by (simp add: rooms_keyword_def range_1_10)
  have k4: "feature_keywords cpython demo_db ?t = []"
    by (simp add: feature_keywords_def demo_db_def cpython_def lower_char_def)
  have k5: "str_in [1073, 1072, 1083, 1082, 1086, 1085] ?t = False"
    "str_in [1083, 1080, 1092, 1090] ?t = False"
    "str_in [1087, 1072, 1088, 1082, 1086, 1074, 1082] ?t = False"
    "str_in [1087, 1072, 1088, 1082, 1080, 1085, 1075] ?t = False"
    by simp_all
  show ?thesis
    unfolding nl_filters_def Let_def low n1 n2 n3 n4 k1 k2 k3 k4 k5
    by (simp add: no_filters_def amenity_def)
qed

text \<open>
  C2: the claim is that a text whose only number stands in \<open>ploshchad ot {n}\<close> sets
  \<open>min_area\<close> and leaves \<open>min_price\<close> unset, and likewise \<open>ploshchad do {n}\<close> for
  \<open>max_area\<close> and \<open>max_price\<close>.  On the texts \<open>ploshchad ot 50\<close> and \<open>ploshchad do 80\<close>
  the method sets both keys: the price patterns \<open>ot\s+(\d+)\<close> and \<open>do\s+(\d+)\<close> match
  inside the area phrases.
\<close>

theorem area_phrase_sets_price:
  "min_area (nl_filters cpython demo_db
      [1087, 1083, 1086, 1097, 1072, 1076, 1100, 32, 1086, 1090, 32, 53, 48]) = Some (PyInt 50)
   \<and> min_price (nl_filters cpython demo_db
      [1087, 1083, 1086, 1097, 1072, 1076, 1100, 32, 1086, 1090, 32, 53, 48]) = Some (PyInt 50)
   \<and> max_area (nl_filters cpython demo_db
      [1087, 1083, 1086, 1097, 1072, 1076, 1100, 32, 1076, 1086, 32, 56, 48]) = Some (PyInt 80)
   \<and> max_price (nl_filters cpython demo_db
      [1087, 1083, 1086, 1097, 1072, 1076, 1100, 32, 1076, 1086, 32, 56, 48]) = Some (PyInt 80)"
  by (simp add: area_from_50 area_to_80)

subsection \<open>Searches that return\<close>

lemma enrich_total: "resolves s row \<Longrightarrow> \<exists>d. enrich s row = Inr d"
  by (auto simp: resolves_def enrich_def fetchone_def list_ex_iff filter_empty_conv
      split: option.splits list.splits)

lemma enrich_all_total: "\<forall>row \<in> set rows. resolves s row \<Longrightarrow> \<exists>res. enrich_all s rows = Inr res"
proof (induction rows)
  case Nil
  then show ?case by simp
next
  case (Cons row rows)
  then obtain d res where "enrich s row = Inr d" "enrich_all s rows = Inr res"
    using enrich_total [of s row] by auto
  then show ?case by simp
qed

lemma select_rows_subset: "set (select_rows s flt) \<subseteq> {p \<in> set (Properties s). conditions flt p}"
  by (auto simp: select_rows_def split: option.splits list.splits)

lemma limit_offset_subset: "set (limit_offset limit offset rows) \<subseteq> set rows"
  by (auto simp: limit_offset_def dest: in_set_takeD in_set_dropD)

lemma limit_offset_distinct: "distinct rows \<Longrightarrow> distinct (limit_offset limit offset rows)"
  by (simp add: limit_offset_def)

lemma search_rows_subset:
  "set (search_rows s flt limit offset) \<subseteq> {p \<in> set (Properties s). conditions flt p}"
  using limit_offset_subset [of limit offset "order_by_date_added_desc (remdups (select_rows s flt))"]
    select_rows_subset [of s flt]
  by (auto simp: search_rows_def order_by_date_added_desc_def)

lemma search_rows_distinct: "distinct (search_rows s flt limit offset)"
  by (simp add: search_rows_def order_by_date_added_desc_def limit_offset_distinct)

lemma search_properties_rows:
  assumes "search_properties s flt limit offset = Inr res"
  shows "map property.truncate res = search_rows s flt limit offset"
  using assms by (auto simp: search_properties_def split: if_splits dest: enrich_all_truncate)

lemma search_properties_total:
  assumes "integrity s" and "list_all can_bind (params flt limit offset)"
  shows "\<exists>res. search_properties s flt limit offset = Inr res
           \<and> map property.truncate res = search_rows s flt limit offset"
proof -
  from assms(1) search_rows_subset [of s flt limit offset]
  have "\<forall>row \<in> set (search_rows s flt limit offset). resolves s row"
    by (auto simp: integrity_def list_all_iff)
  from enrich_all_total [OF this] obtain res
    where "enrich_all s (search_rows s flt limit offset) = Inr res" ..
  with enrich_all_truncate [OF this] assms(2) show ?thesis
    by (simp add: search_properties_def)
qed

lemma count_in_result:
  "length [d \<leftarrow> res. property.truncate d = p] = length [r \<leftarrow> map property.truncate res. r = p]"
  by (simp add: filter_map comp_def)

lemma distinct_once: "distinct xs \<Longrightarrow> x \<in> set xs \<Longrightarrow> length [r \<leftarrow> xs. r = x] = 1"
  by (induction xs) (auto simp: filter_empty_conv)

subsection \<open>The feature group\<close>

text \<open>
  C3: for every filter whose feature list is \<open>[a, b]\<close> and every listing of the store that
  passes the other conditions of the filter (it is available, above all) and has an
  association with \<open>a\<close> or with \<open>b\<close> (with one of them only, or with both), the search
  returns and the listing is in its result exactly once.  The page is the whole result:
  no limit, or a limit that is not below the number of listings, and no offset.  The
  parameters of the query (the two feature ids, the values of the filter, the limit and
  the offset) are integers of 64 bits, without which the query raises \<open>OverflowError\<close>, and
  the store satisfies the foreign keys of the schema, without which the lookups of a row
  raise \<open>TypeError\<close>.
\<close>

theorem feature_filter_once:
  assumes flt: "features flt = Some [a, b]"
    and p: "p \<in> set (Properties s)" "conditions flt p"
    and pf: "pf \<in> set (PropertyFeatures s)" "pf_property_id pf = p_property_id p"
            "pf_feature_id pf = a \<or> pf_feature_id pf = b"
    and fk: "integrity s"
    and binds: "list_all can_bind (params flt limit offset)"
    and page: "limit < 0 \<or> int (length (Properties s)) \<le> limit" "offset \<le> 0"
  shows "\<exists>res. search_properties s flt limit offset = Inr res
           \<and> length [d \<leftarrow> res. property.truncate d = p] = 1"
proof -
  define rows where "rows = order_by_date_added_desc (remdups (select_rows s flt))"
  have "p \<in> set (select_rows s flt)"
    using flt p pf by (auto simp: select_rows_def feature_conditions_def)
  then have member: "p \<in> set rows"
    by (simp add: rows_def order_by_date_added_desc_def)
  have dist: "distinct rows"
    by (simp add: rows_def order_by_date_added_desc_def)
  have "set rows \<subseteq> set (Properties s)"
    using select_rows_subset [of s flt] by (auto simp: rows_def order_by_date_added_desc_def)
  then have "card (set rows) \<le> card (set (Properties s))"
    by (simp add: card_mono)
  with dist have "length rows \<le> length (Properties s)"
    using card_length [of "Properties s"] by (simp add: distinct_card)
  with page have "limit_offset limit offset rows = rows"
    by (auto simp: limit_offset_def)
  then have all: "search_rows s flt limit offset = rows"
    by (simp add: search_rows_def rows_def)
  from search_properties_total [OF fk binds] obtain res
    where res: "search_properties s flt limit offset = Inr res"
      "map property.truncate res = rows"
    by (auto simp: all)
  from distinct_once [OF dist member] res(2)
  have "length [d \<leftarrow> res. property.truncate d = p] = 1"
    by (simp add: count_in_result)
  with res(1) show ?thesis by simp
qed

theorem feature_filter_once_witness:
  "features (no_filters\<lparr>features := Some [1, 2]\<rparr>) = Some [1, 2]
   \<and> listing 1 1 1 100000 50 2 1 7 30 \<in> set (Properties demo_db)
   \<and> conditions (no_filters\<lparr>features := Some [1, 2]\<rparr>) (listing 1 1 1 100000 50 2 1 7 30)
   \<and> \<lparr>pf_property_id = 1, pf_feature_id = 1\<rparr> \<in> set (PropertyFeatures demo_db)
   \<and> \<lparr>pf_property_id = 1, pf_feature_id = 2\<rparr> \<in> set (PropertyFeatures demo_db)
   \<and> integrity demo_db
   \<and> list_all can_bind (params (no_filters\<lparr>features := Some [1, 2]\<rparr>) 10 0)
   \<and> (\<exists>res. search_properties demo_db (no_filters\<lparr>features := Some [1, 2]\<rparr>) 10 0 = Inr res
          \<and> length [d \<leftarrow> res. property.truncate d = listing 1 1 1 100000 50 2 1 7 30] = 1)"
proof -
  let ?flt = "no_filters\<lparr>features := Some [1, 2]\<rparr>"
  let ?p = "listing 1 1 1 100000 50 2 1 7 30"
  let ?pf = "\<lparr>pf_property_id = 1, pf_feature_id = 1\<rparr>"
  have h1: "features ?flt = Some [1, 2]" by simp
  have h2: "?p \<in> set (Properties demo_db)" by (simp add: demo_db_def)
  have h3: "conditions ?flt ?p" by (simp add: conditions_def no_filters_def listing_def)
  have h4: "?pf \<in> set (PropertyFeatures demo_db)"
    and h4': "\<lparr>pf_property_id = 1, pf_feature_id = 2\<rparr> \<in> set (PropertyFeatures demo_db)"
    by (simp_all add: demo_db_def)
  have h5: "pf_property_id ?pf = p_property_id ?p" by (simp add: listing_def)
  have h6: "pf_feature_id ?pf = 1 \<or> pf_feature_id ?pf = 2" by simp
  have h7: "integrity demo_db"
    by (simp add: integrity_def resolves_def demo_db_def listing_def)
  have h8: "list_all can_bind (params ?flt 10 0)"
    by (simp add: params_def param_def no_filters_def can_bind_def int64_def)
  have h9: "(10::int) < 0 \<or> int (length (Properties demo_db)) \<le> 10" "(0::int) \<le> 0"
    by (simp_all add: demo_db_def)
  from feature_filter_once [OF h1 h2 h3 h4 h5 h6 h7 h8 h9] h1 h2 h3 h4 h4' h7 h8
  show ?thesis by blast
qed

subsection \<open>The search without filters\<close>

lemma conditions_no_filters: "conditions no_filters = (\<lambda>p. p_is_available p = 1)"
  by (simp add: fun_eq_iff conditions_def no_filters_def)

lemma select_rows_no_filters:
  "select_rows s no_filters = [p \<leftarrow> Properties s. p_is_available p = 1]"
proof -
  have "features no_filters = None" by (simp add: no_filters_def)
  then show ?thesis by (simp add: select_rows_def conditions_no_filters)
qed

lemma params_no_filters: "params no_filters limit offset = [PyInt limit, PyInt offset]"
  by (simp add: params_def param_def no_filters_def)

lemma order_by_date_added_desc_sorted:
  "sorted_wrt (\<lambda>a b. p_date_added b \<le> p_date_added a) (order_by_date_added_desc rows)"
proof -
  have "sorted (map (\<lambda>p. - p_date_added p) (sort_key (\<lambda>p. - p_date_added p) rows))"
    by (rule sorted_sort_key)
  then show ?thesis
    by (simp add: order_by_date_added_desc_def sorted_map)
qed

lemma sorted_wrt_take_drop:
  assumes "sorted_wrt R xs"
  shows "sorted_wrt R (take n xs) \<and> (\<forall>x \<in> set (take n xs). \<forall>y \<in> set (drop n xs). R x y)"
proof -
  from assms have "sorted_wrt R (take n xs @ drop n xs)" by simp
  then show ?thesis unfolding sorted_wrt_append by blast
qed

text \<open>
  C6: for every limit \<open>n\<close> that SQLite can take, a count below \<open>2 ^ 63\<close>, and the filter
  with no key, the search on a store that satisfies its foreign keys returns, and its rows
  are the \<open>n\<close> most recently added available listings: they are available listings of the
  store, none twice; there are \<open>n\<close> of them, or all the available ones when those are
  fewer; they come in descending order of \<open>date_added\<close>; and no available listing that was
  left out is newer than one that was returned.  Nothing but availability decides what is
  in the result.
\<close>

theorem search_no_filters:
  assumes "integrity s" and "int64 (int n)"
  shows "\<exists>res. search_properties s no_filters (int n) 0 = Inr res
           \<and> (let rows = map property.truncate res;
                   available = {p \<in> set (Properties s). p_is_available p = 1}
               in set rows \<subseteq> available
                  \<and> distinct rows
                  \<and> length rows = min n (card available)
                  \<and> sorted_wrt (\<lambda>a b. p_date_added b \<le> p_date_added a) rows
                  \<and> (\<forall>q \<in> available - set rows. \<forall>r \<in> set rows.
                         p_date_added q \<le> p_date_added r))"
proof -
  define available where "available = {p \<in> set (Properties s). p_is_available p = 1}"
  define ordered where "ordered = order_by_date_added_desc (remdups (select_rows s no_filters))"
  define rows where "rows = take n ordered"
  have set_ordered: "set ordered = available"
    by (auto simp: ordered_def available_def order_by_date_added_desc_def select_rows_no_filters)
  have dist: "distinct ordered"
    by (simp add: ordered_def order_by_date_added_desc_def)
  have search: "search_rows s no_filters (int n) 0 = rows"
    by (simp add: search_rows_def limit_offset_def rows_def ordered_def)
  have sub: "set rows \<subseteq> available"
    using set_take_subset [of n ordered] by (simp add: rows_def set_ordered)
  have d: "distinct rows"
    using dist by (simp add: rows_def)
  have "length ordered = card available"
    using dist set_ordered distinct_card [of ordered] by simp
  then have len: "length rows = min n (card available)"
    by (simp add: rows_def min.commute)
  have sorted: "sorted_wrt (\<lambda>a b. p_date_added b \<le> p_date_added a) ordered"
    unfolding ordered_def by (rule order_by_date_added_desc_sorted)
  note td = sorted_wrt_take_drop [OF sorted, of n]
  have s: "sorted_wrt (\<lambda>a b. p_date_added b \<le> p_date_added a) rows"
    using td by (simp add: rows_def)
  have rest: "p_date_added q \<le> p_date_added r" if "q \<in> available - set rows" "r \<in> set rows" for q r
  proof -
    from that(1) have "q \<in> set (take n ordered @ drop n ordered)" "q \<notin> set (take n ordered)"
      by (simp_all add: set_ordered rows_def)
    then have "q \<in> set (drop n ordered)"
      unfolding set_append by blast
    with td that(2) show ?thesis by (simp add: rows_def)
  qed
  have binds: "list_all can_bind (params no_filters (int n) 0)"
    using assms(2) by (simp add: params_no_filters can_bind_def int64_def)
  from search_properties_total [OF assms(1) binds] obtain res
    where res: "search_properties s no_filters (int n) 0 = Inr res"
      "map property.truncate res = rows"
    by (auto simp: search)
  from sub d len s rest
  have "set rows \<subseteq> available \<and> distinct rows \<and> length rows = min n (card available)
          \<and> sorted_wrt (\<lambda>a b. p_date_added b \<le> p_date_added a) rows
          \<and> (\<forall>q \<in> available - set rows. \<forall>r \<in> set rows. p_date_added q \<le> p_date_added r)"
    by blast
  with res show ?thesis
    unfolding Let_def available_def by blast
qed

theorem search_no_filters_witness:
  "integrity demo_db \<and> int64 (int 1)
   \<and> (\<exists>res. search_properties demo_db no_filters (int 1) 0 = Inr res
          \<and> map property.truncate res = [listing 1 1 1 100000 50 2 1 7 30])"
proof -
  have h: "integrity demo_db"
    by (simp add: integrity_def resolves_def demo_db_def listing_def)
  have h': "int64 (int 1)" by (simp add: int64_def)
  let ?l1 = "listing 1 1 1 100000 50 2 1 7 30" and ?l2 = "listing 2 2 1 250000 120 4 1 0 20"
  have av: "{p \<in> set (Properties demo_db). p_is_available p = 1} = {?l1, ?l2}"
    by (auto simp: demo_db_def listing_def)
  have ne: "?l1 \<noteq> ?l2" by (simp add: listing_def)
  from search_no_filters [OF h h'] obtain res
    where res: "search_properties demo_db no_filters (int 1) 0 = Inr res"
      and sub: "set (map property.truncate res) \<subseteq> {?l1, ?l2}"
      and len: "length (map property.truncate res) = min 1 (card {?l1, ?l2})"
      and newest: "\<forall>q \<in> {?l1, ?l2} - set (map property.truncate res).
                     \<forall>r \<in> set (map property.truncate res). p_date_added q \<le> p_date_added r"
    unfolding Let_def av by blast
  from len ne obtain r where r: "map property.truncate res = [r]"
    by (cases "map property.truncate res") auto
  with sub have "r = ?l1 \<or> r = ?l2" by simp
  moreover have "r \<noteq> ?l2"
  proof
    assume "r = ?l2"
    with newest r ne have "p_date_added ?l1 \<le> p_date_added ?l2" by simp
    then show False by (simp add: listing_def)
  qed
  ultimately have "map property.truncate res = [?l1]" using r by simp
  with res have "\<exists>res. search_properties demo_db no_filters (int 1) 0 = Inr res
          \<and> map property.truncate res = [?l1]" by (intro exI [of _ res] conjI)
  with h h' show ?thesis by (intro conjI)
qed

subsection \<open>Soft deletion\<close>

lemma row_id_unavailable [simp]: "row_id (unavailable pid q) = row_id q"
  by (simp add: unavailable_def row_id_def)

lemma row_id_viewed [simp]: "row_id (viewed pid q) = row_id q"
  by (simp add: viewed_def row_id_def)

lemma delete_property_store:
  "int64 pid \<Longrightarrow> delete_property s pid
     = (Inr True, s\<lparr>Properties := map (unavailable pid) (Properties s)\<rparr>)"
  by (simp add: delete_property_def)

lemma get_property_by_id_store:
  "int64 pid \<Longrightarrow> get_property_by_id s pid
     = (let s' = s\<lparr>Properties := map (viewed pid) (Properties s)\<rparr>
        in case fetchone [p \<leftarrow> Properties s'. row_id p = pid] of
             None \<Rightarrow> (Inr None, s')
           | Some property_row \<Rightarrow>
               (case enrich s' property_row of
                  Inl e \<Rightarrow> (Inl e, s')
                | Inr property_dict \<Rightarrow> (Inr (Some property_dict), s')))"
  by (simp add: get_property_by_id_def)

lemma unavailable_available:
  "[q \<leftarrow> map (unavailable pid) ps. p_is_available q = 1]
     = [q \<leftarrow> [q \<leftarrow> ps. row_id q \<noteq> pid]. p_is_available q = 1]"
proof (induction ps)
  case Nil
  then show ?case by simp
next
  case (Cons q ps)
  then show ?case by (cases "row_id q = pid") (simp_all add: unavailable_def)
qed

lemma unavailable_flag:
  assumes "q \<in> set (map (unavailable pid) ps)" and "row_id q = pid"
  shows "p_is_available q = 0"
proof -
  from assms(1) obtain q0 where q: "q = unavailable pid q0" by auto
  with assms(2) have "row_id q0 = pid" by simp
  with q show ?thesis by (simp add: unavailable_def)
qed

lemma unavailable_views:
  "map p_views_count (map (unavailable pid) ps) = map p_views_count ps"
  by (induction ps) (simp_all add: unavailable_def)

lemma get_statistics_available:
  assumes a: "[q \<leftarrow> Properties s. p_is_available q = 1] = [q \<leftarrow> Properties t. p_is_available q = 1]"
    and b: "PropertyFeatures s = PropertyFeatures t" and c: "Features s = Features t"
    and d: "PropertyTypes s = PropertyTypes t" and e: "Districts s = Districts t"
  shows "get_statistics s = get_statistics t"
  unfolding get_statistics_def a b c d e by (rule refl)

lemma truncate_row_id: "row_id (property.truncate d) = row_id d"
  by (simp add: property.truncate_def row_id_def)

lemma search_deleted:
  assumes "search_properties (s\<lparr>Properties := map (unavailable pid) (Properties s)\<rparr>)
             flt limit offset = Inr res"
  shows "pid \<notin> row_id ` set res"
proof
  let ?s' = "s\<lparr>Properties := map (unavailable pid) (Properties s)\<rparr>"
  assume "pid \<in> row_id ` set res"
  then obtain d where d: "d \<in> set res" "row_id d = pid" by auto
  from search_properties_rows [OF assms] d(1)
  have "property.truncate d \<in> set (search_rows ?s' flt limit offset)"
    by (metis image_eqI set_map)
  with search_rows_subset [of ?s' flt limit offset]
  have row: "property.truncate d \<in> set (map (unavailable pid) (Properties s))"
    "conditions flt (property.truncate d)"
    by auto
  from row(2) have "p_is_available (property.truncate d) = 1"
    by (simp add: conditions_def)
  moreover from unavailable_flag [OF row(1)] d(2)
  have "p_is_available (property.truncate d) = 0"
    by (simp add: truncate_row_id)
  ultimately show False by simp
qed

lemma fetchone_map:
  assumes "\<And>q. k (f q) = k q"
  shows "fetchone [q \<leftarrow> map f xs. k q = v] = map_option f (fetchone [q \<leftarrow> xs. k q = v])"
proof -
  have "[q \<leftarrow> map f xs. k q = v] = map f [q \<leftarrow> xs. k q = v]"
    by (induction xs) (simp_all add: assms)
  then show ?thesis
    by (cases "[q \<leftarrow> xs. k q = v]") (simp_all add: fetchone_def)
qed

lemma fetchone_member:
  assumes "x \<in> set xs" and "k x = v"
  shows "\<exists>y. fetchone [q \<leftarrow> xs. k q = v] = Some y \<and> y \<in> set xs \<and> k y = v"
proof -
  from assms have "x \<in> set [q \<leftarrow> xs. k q = v]" by simp
  then obtain y ys where ys: "[q \<leftarrow> xs. k q = v] = y # ys"
    by (cases "[q \<leftarrow> xs. k q = v]") auto
  then have "y \<in> set [q \<leftarrow> xs. k q = v]" by simp
  then have "y \<in> set xs" "k y = v" by simp_all
  with ys show ?thesis by (simp add: fetchone_def)
qed

lemma enrich_tables:
  assumes "PropertyFeatures t = PropertyFeatures s" and "Features t = Features s"
    and "PropertyTypes t = PropertyTypes s" and "Districts t = Districts s"
  shows "enrich t row = enrich s row"
  unfolding enrich_def features_query_def assms by (rule refl)

lemma enrich_unavailable:
  assumes "enrich s row = Inr d"
  shows "enrich s (row\<lparr>p_is_available := 0\<rparr>) = Inr (d\<lparr>p_is_available := 0\<rparr>)"
  using assms
  by (auto simp: enrich_def property.extend_def split: option.splits)

lemma enrich_features:
  assumes "enrich s row = Inr d"
  shows "pd_features d = features_query s (p_property_id row)"
  using assms
  by (auto simp: enrich_def property.extend_def property_dict.fields_def split: option.splits)

lemma lookup_after_delete:
  assumes fk: "integrity s" and p: "p \<in> set (Properties s)" "row_id p = pid"
  shows "\<exists>d. fst (get_property_by_id s pid) = Inr (Some d)
           \<and> fst (get_property_by_id (s\<lparr>Properties := map (unavailable pid) (Properties s)\<rparr>) pid)
               = Inr (Some (d\<lparr>p_is_available := 0\<rparr>))
           \<and> pd_features d = features_query s (p_property_id p)"
proof -
  from p(2) have range: "int64 pid" by (rule int64_row_id)
  from fetchone_member [of p "Properties s" row_id pid, OF p] obtain p1
    where p1: "fetchone [q \<leftarrow> Properties s. row_id q = pid] = Some p1"
      "p1 \<in> set (Properties s)" "row_id p1 = pid"
    by blast
  from p1(3) p(2) have "sint (p_property_id p1) = sint (p_property_id p)"
    by (simp add: row_id_def)
  then have same: "p_property_id p1 = p_property_id p"
    by (rule signed_word_eqI)
  define s1 where "s1 = s\<lparr>Properties := map (viewed pid) (Properties s)\<rparr>"
  define s2 where "s2 = s\<lparr>Properties := map (viewed pid) (map (unavailable pid) (Properties s))\<rparr>"
  define row where "row = p1\<lparr>p_views_count := p_views_count p1 + 1\<rparr>"
  have "fetchone [q \<leftarrow> map (viewed pid) (Properties s). row_id q = pid]
          = Some (viewed pid p1)"
    using p1(1) fetchone_map [where k = row_id and f = "viewed pid" and xs = "Properties s"
        and v = pid]
    by simp
  then have first1: "fetchone [q \<leftarrow> Properties s1. row_id q = pid] = Some row"
    using p1(3) by (simp add: s1_def row_def viewed_def)
  have "fetchone [q \<leftarrow> map (unavailable pid) (Properties s). row_id q = pid]
          = Some (unavailable pid p1)"
    using p1(1) fetchone_map [where k = row_id and f = "unavailable pid"
        and xs = "Properties s" and v = pid]
    by simp
  then have "fetchone [q \<leftarrow> map (viewed pid) (map (unavailable pid) (Properties s)).
                        row_id q = pid]
          = Some (viewed pid (unavailable pid p1))"
    using fetchone_map [where k = row_id and f = "viewed pid"
        and xs = "map (unavailable pid) (Properties s)" and v = pid]
    by simp
  then have first2: "fetchone [q \<leftarrow> Properties s2. row_id q = pid]
          = Some (row\<lparr>p_is_available := 0\<rparr>)"
    using p1(3) by (simp add: s2_def row_def viewed_def unavailable_def row_id_def)
  from fk p1(2) have "resolves s p1"
    by (simp add: integrity_def list_all_iff)
  then have "resolves s row"
    by (simp add: resolves_def row_def)
  from enrich_total [OF this] obtain d where d: "enrich s row = Inr d" ..
  have e1: "enrich s1 row = Inr d"
    using d enrich_tables [of s1 s row] by (simp add: s1_def)
  have e2: "enrich s2 (row\<lparr>p_is_available := 0\<rparr>) = Inr (d\<lparr>p_is_available := 0\<rparr>)"
    using enrich_unavailable [OF d] enrich_tables [of s2 s "row\<lparr>p_is_available := 0\<rparr>"]
    by (simp add: s2_def)
  have l1: "fst (get_property_by_id s pid) = Inr (Some d)"
    using range first1 e1 by (simp add: get_property_by_id_store Let_def s1_def)
  have l2: "fst (get_property_by_id (s\<lparr>Properties := map (unavailable pid) (Properties s)\<rparr>) pid)
              = Inr (Some (d\<lparr>p_is_available := 0\<rparr>))"
    using range first2 e2 by (simp add: get_property_by_id_store Let_def s2_def)
  from enrich_features [OF d] same have "pd_features d = features_query s (p_property_id p)"
    by (simp add: row_def)
  with l1 l2 show ?thesis by blast
qed

text \<open>
  C4: after \<open>delete_property(id)\<close> on the id of a listing of the store, which returns
  \<open>True\<close>, the listing is in no result of \<open>search_properties\<close>, whatever the filter, the
  limit and the offset, and \<open>get_statistics\<close> gives what it gives for the store without the
  row, so the listing is in none of its counts.  The row and its history are kept: the
  associations and every view counter of the store are as they were, and
  \<open>get_property_by_id(id)\<close> returns the record that it returns without the deletion, its
  features and its view count among its fields, except that \<open>is_available\<close> is 0.  The store
  satisfies the foreign keys of the schema, without which the lookups of the row raise
  \<open>TypeError\<close> before and after the deletion.
\<close>

theorem deleted_listing_kept:
  assumes "integrity s" and "p \<in> set (Properties s)" and "row_id p = property_id"
  shows "let s' = snd (delete_property s property_id)
         in fst (delete_property s property_id) = Inr True
            \<and> (\<forall>flt limit offset res.
                  search_properties s' flt limit offset = Inr res
                  \<longrightarrow> property_id \<notin> row_id ` set res)
            \<and> get_statistics s'
                = get_statistics (s\<lparr>Properties := [q \<leftarrow> Properties s. row_id q \<noteq> property_id]\<rparr>)
            \<and> PropertyFeatures s' = PropertyFeatures s
            \<and> map p_views_count (Properties s') = map p_views_count (Properties s)
            \<and> (\<exists>d. fst (get_property_by_id s property_id) = Inr (Some d)
                  \<and> fst (get_property_by_id s' property_id)
                      = Inr (Some (d\<lparr>p_is_available := 0\<rparr>))
                  \<and> pd_features d = features_query s (p_property_id p))"
proof -
  from assms(3) have range: "int64 property_id" by (rule int64_row_id)
  define s' where "s' = s\<lparr>Properties := map (unavailable property_id) (Properties s)\<rparr>"
  have deleted: "delete_property s property_id = (Inr True, s')"
    using range by (simp add: delete_property_store s'_def)
  have b: "\<forall>flt limit offset res.
             search_properties s' flt limit offset = Inr res
             \<longrightarrow> property_id \<notin> row_id ` set res"
    unfolding s'_def using search_deleted by blast
  have c: "get_statistics s'
             = get_statistics (s\<lparr>Properties := [q \<leftarrow> Properties s. row_id q \<noteq> property_id]\<rparr>)"
    by (rule get_statistics_available) (simp_all add: s'_def unavailable_available)
  have d: "PropertyFeatures s' = PropertyFeatures s"
    by (simp add: s'_def)
  have e: "map p_views_count (Properties s') = map p_views_count (Properties s)"
    using unavailable_views [of property_id "Properties s"] by (simp add: s'_def)
  note f = lookup_after_delete [OF assms, folded s'_def]
  show ?thesis
    unfolding Let_def deleted fst_conv snd_conv by (intro conjI refl b c d e f)
qed

theorem deleted_listing_kept_witness:
  "integrity demo_db
   \<and> listing 1 1 1 100000 50 2 1 7 30 \<in> set (Properties demo_db)
   \<and> row_id (listing 1 1 1 100000 50 2 1 7 30) = 1
   \<and> fst (delete_property demo_db 1) = Inr True
   \<and> map p_views_count (Properties (snd (delete_property demo_db 1))) = [7, 0, 3]
   \<and> (\<exists>d. fst (get_property_by_id demo_db 1) = Inr (Some d)
          \<and> fst (get_property_by_id (snd (delete_property demo_db 1)) 1)
              = Inr (Some (d\<lparr>p_is_available := 0\<rparr>))
          \<and> pd_features d = features_query demo_db 1)"
proof -
  let ?p = "listing 1 1 1 100000 50 2 1 7 30"
  have h1: "integrity demo_db"
    by (simp add: integrity_def resolves_def demo_db_def listing_def)
  have h2: "?p \<in> set (Properties demo_db)" by (simp add: demo_db_def)
  have h3: "row_id ?p = 1" by (simp add: listing_def row_id_def)
  have views: "map p_views_count (Properties demo_db) = [7, 0, 3]"
    by (simp add: demo_db_def listing_def)
  have word: "p_property_id ?p = 1" by (simp add: listing_def)
  from deleted_listing_kept [OF h1 h2 h3] h1 h2 h3 views word show ?thesis
    unfolding Let_def by simp
qed

end
